theory Spec2Isabelle
  imports Complex_Main
begin

section \<open>The player hook \<open>useLottiePlayer\<close> (src/hooks/useLottiePlayer.ts)\<close>

text \<open>
  The hook adapts the events of an externally owned animation handle (a lottie-web
  \<open>AnimationItem\<close>) to a small player state machine and to two optional host callbacks.
  The embedding passes an explicit \<open>world\<close> through every operation: the React state of
  the hook, the heap of animation handles, and the sequence of calls the hook makes on
  the host callbacks, on its own state setters and on the handles.
\<close>

subsection \<open>Data\<close>

type_synonym AnimationEventName = string

text \<open>
  A TypeScript \<open>number\<close>; the hook only passes numbers on and compares them with
  \<open>!==\<close>. \<open>NaN\<close>, the one number that differs from itself, is left out.
\<close>

type_synonym number = real

text \<open>A reference to an animation handle: handles are compared by identity.\<close>

type_synonym ref = nat

datatype LottiePlayerState = Loading | Playing | Paused | Stopped | Frozen | Error

datatype LottiePlayerEvent =
  Load | Error | Ready | Play | Pause | Stop | Freeze | LoopCompleted | Complete | Frame

text \<open>
  The bodies of the handler functions of the \<open>listeners\<close> array. \<open>Noop\<close> is
  \<open>() => undefined\<close>.
\<close>

datatype handler =
  CompleteHandler | LoopCompleteHandler | EnterFrameHandler | Noop
  | DataReadyHandler | DataFailedHandler | DOMLoadedHandler

text \<open>
  A function object the host passes as \<open>onPlayerEvent\<close>: functions are compared by
  identity, and a host may pass another function at a later render.
\<close>

type_synonym hostfn = nat

text \<open>
  What the closures created by one run of the effect capture, all of it from the render
  that ran the effect: the \<open>animationItem\<close>, the \<open>currentFrame\<close> and, through
  \<open>triggerEvent\<close>, the \<open>onPlayerEvent\<close> of that render. \<open>b_effect\<close> numbers the runs of
  the effect, so that the function objects of two runs are different objects.
\<close>

record binding =
  b_item :: ref
  b_effect :: nat
  b_frame :: number
  b_onPlayerEvent :: "hostfn option"

text \<open>A handler function object: its body and the bindings of its free variables.\<close>

record callback =
  cb_body :: handler
  cb_env :: binding

text \<open>The calls the hook makes, in the order it makes them.\<close>

datatype call =
    OnPlayerEvent hostfn LottiePlayerEvent
  | OnPlayerStateChange LottiePlayerState
  | SetPlayerState LottiePlayerState
  | SetCurrentFrame number
  | AddEventListener ref AnimationEventName callback
  | RemoveEventListener ref AnimationEventName callback
  | ItemPlay ref
  | ItemPause ref
  | GoToAndStop ref number "bool option"
  | GoToAndPlay ref number "bool option"
  | SetSpeed ref number

text \<open>
  What a handle does while it executes one of its playback methods, before the method
  returns: it moves its \<open>currentFrame\<close> and dispatches events to its callbacks.
\<close>

datatype engine_step = SetFrame number | Dispatch AnimationEventName

text \<open>
  The part of an \<open>AnimationItem\<close> the hook reads or changes: the \<open>autoplay\<close> flag, the
  \<open>currentFrame\<close> readout and the registered callbacks by event name, in registration
  order. \<open>addThrows\<close> and \<open>removeThrows\<close> say whether \<open>addEventListener\<close> and
  \<open>removeEventListener\<close> throw on this handle at the moment (the comments of the source:
  a handle that is not ready yet, a handle that was destroyed). \<open>reaction\<close> gives, for a
  call of \<open>play\<close>, \<open>pause\<close>, \<open>goToAndStop\<close>, \<open>goToAndPlay\<close> or \<open>setSpeed\<close>, what the
  handle does during the call; the library behind the handle is not among the sources,
  so every statement below holds for every \<open>reaction\<close>.
\<close>

record AnimationItem =
  autoplay :: bool
  currentFrame :: number
  cbs :: "(AnimationEventName \<times> callback) list"
  addThrows :: bool
  removeThrows :: bool
  reaction :: "call \<Rightarrow> engine_step list"

text \<open>
  The variables of one render of the hook that the functions created by that render
  close over: the argument \<open>animationItem\<close> (\<open>None\<close> is \<open>null\<close>), the option
  \<open>onPlayerEvent\<close> (\<open>None\<close> when the host supplied none) and the constants \<open>playerState\<close>
  and \<open>currentFrame\<close>, which are the values the React state had when the render ran.
\<close>

record scope =
  r_animationItem :: "ref option"
  r_onPlayerEvent :: "hostfn option"
  r_playerState :: LottiePlayerState
  r_currentFrame :: number

text \<open>
  \<open>onPlayerStateChange\<close> says whether the host supplied that optional callback; it is
  taken to be the same at every render, since which \<open>onChange\<close> is called after the
  host changed it is decided inside \<open>usePlayerState\<close>.
  \<open>rendered\<close> holds the variables of the latest render. \<open>playerState\<close> and
  \<open>hookCurrentFrame\<close> are the two pieces of React state as last set
  (\<open>const [currentFrame, setCurrentFrame] = useState<number>(0)\<close>); a function created by
  a render does not read them, it reads the constants of its render. \<open>cleanup\<close> is the
  cleanup function the last run of the effect returned, if it returned one.
\<close>

record world =
  onPlayerStateChange :: bool
  rendered :: scope
  playerState :: LottiePlayerState
  hookCurrentFrame :: number
  cleanup :: "binding option"
  effectRuns :: nat
  items :: "ref \<Rightarrow> AnimationItem"
  calls :: "call list"

text \<open>
  A call either returns or throws; in both cases the world is the one the call left
  behind (nothing is rolled back by a throw).
\<close>

datatype 'a outcome = Returned 'a | Thrown 'a

fun result :: "'a outcome \<Rightarrow> 'a" where
  "result (Returned s) = s"
| "result (Thrown s) = s"

fun returns :: "'a outcome \<Rightarrow> bool" where
  "returns (Returned s) = True"
| "returns (Thrown s) = False"

text \<open>Statement sequencing: a throw skips the rest.\<close>

fun andThen :: "'a outcome \<Rightarrow> ('a \<Rightarrow> 'a outcome) \<Rightarrow> 'a outcome" where
  "andThen (Returned s) f = f s"
| "andThen (Thrown s) f = Thrown s"

text \<open>\<open>try { body } catch (e) { }\<close> with the empty catch block of the source.\<close>

fun tryCatch :: "'a outcome \<Rightarrow> 'a outcome" where
  "tryCatch (Returned s) = Returned s"
| "tryCatch (Thrown s) = Returned s"

definition record_call :: "call \<Rightarrow> world \<Rightarrow> world" where
  "record_call c s = s\<lparr>calls := calls s @ [c]\<rparr>"

subsection \<open>The player state holder (\<open>usePlayerState\<close>)\<close>

text \<open>
  The \<open>onChange\<close> argument that \<open>useLottiePlayer\<close> passes to \<open>usePlayerState\<close>:
  \<open>if (onPlayerStateChange && isFunction(onPlayerStateChange)) onPlayerStateChange(newPlayerState)\<close>.
  \<open>utils/isFunction\<close> is not among the sources; a callback the host supplied is a
  function by the type of the options.
\<close>

definition onChange :: "LottiePlayerState \<Rightarrow> LottiePlayerState \<Rightarrow> world \<Rightarrow> world" where
  "onChange previousPlayerState newPlayerState s =
     (if onPlayerStateChange s then record_call (OnPlayerStateChange newPlayerState) s else s)"

text \<open>
  Modelled from the spec: \<open>hooks/usePlayerState\<close> is not among the sources. The spec
  (4.1): \<open>setState(next)\<close> replaces the current state and, if \<open>next\<close> differs from the
  current state, invokes the change-notification callback with (previous, next); no other
  side effects.
\<close>

definition setPlayerState :: "LottiePlayerState \<Rightarrow> world \<Rightarrow> world" where
  "setPlayerState next s =
     (let previous = playerState s;
          s1 = record_call (SetPlayerState next) (s\<lparr>playerState := next\<rparr>)
      in if next \<noteq> previous then onChange previous next s1 else s1)"

definition setCurrentFrame :: "number \<Rightarrow> world \<Rightarrow> world" where
  "setCurrentFrame v s = record_call (SetCurrentFrame v) (s\<lparr>hookCurrentFrame := v\<rparr>)"

subsection \<open>\<open>triggerEvent\<close>\<close>

text \<open>
  \<open>useCallback((eventName) => { if (onPlayerEvent) onPlayerEvent(eventName) }, [onPlayerEvent])\<close>:
  the \<open>triggerEvent\<close> of a render calls the \<open>onPlayerEvent\<close> of that render, which is its
  first argument here.
\<close>

definition triggerEvent :: "hostfn option \<Rightarrow> LottiePlayerEvent \<Rightarrow> world \<Rightarrow> world" where
  "triggerEvent onPlayerEvent eventName s =
     (case onPlayerEvent of
        Some f \<Rightarrow> record_call (OnPlayerEvent f eventName) s
      | None \<Rightarrow> s)"

subsection \<open>The animation handle\<close>

text \<open>
  \<open>addEventListener\<close> and \<open>removeEventListener\<close> of the handle: each throws when the
  handle says so, otherwise the callback is appended to, or every occurrence of it is
  removed from, the callbacks of that event name.
\<close>

definition addEventListener ::
    "ref \<Rightarrow> AnimationEventName \<Rightarrow> callback \<Rightarrow> world \<Rightarrow> world outcome" where
  "addEventListener r name cb s =
     (let s1 = record_call (AddEventListener r name cb) s; it = items s1 r
      in if addThrows it then Thrown s1
         else Returned (s1\<lparr>items := (items s1)(r := it\<lparr>cbs := cbs it @ [(name, cb)]\<rparr>)\<rparr>))"

definition removeEventListener ::
    "ref \<Rightarrow> AnimationEventName \<Rightarrow> callback \<Rightarrow> world \<Rightarrow> world outcome" where
  "removeEventListener r name cb s =
     (let s1 = record_call (RemoveEventListener r name cb) s; it = items s1 r
      in if removeThrows it then Thrown s1
         else Returned
           (s1\<lparr>items := (items s1)(r := it\<lparr>cbs := removeAll (name, cb) (cbs it)\<rparr>)\<rparr>))"

subsection \<open>The listeners of the effect\<close>

text \<open>The \<open>listeners\<close> array: the event names and their handlers, in the source's order.\<close>

definition listeners :: "(AnimationEventName \<times> handler) list" where
  "listeners =
     [(''complete'', CompleteHandler),
      (''loopComplete'', LoopCompleteHandler),
      (''enterFrame'', EnterFrameHandler),
      (''segmentStart'', Noop),
      (''config_ready'', Noop),
      (''data_ready'', DataReadyHandler),
      (''data_failed'', DataFailedHandler),
      (''loaded_images'', Noop),
      (''DOMLoaded'', DOMLoadedHandler),
      (''destroy'', Noop)]"

text \<open>
  Running a handler. \<open>animationItem\<close>, \<open>currentFrame\<close> and \<open>triggerEvent\<close> in a handler
  body are the variables the closure captured when the effect ran;
  \<open>animationItem.currentFrame\<close> and \<open>animationItem.autoplay\<close> are read from the handle
  when the handler runs.
\<close>

fun run_handler :: "handler \<Rightarrow> binding \<Rightarrow> world \<Rightarrow> world" where
  "run_handler CompleteHandler b s =
     triggerEvent (b_onPlayerEvent b) Complete (setPlayerState Stopped s)"
| "run_handler LoopCompleteHandler b s =
     triggerEvent (b_onPlayerEvent b) LoopCompleted s"
| "run_handler EnterFrameHandler b s =
     (let s1 = triggerEvent (b_onPlayerEvent b) Frame s
      in if currentFrame (items s1 (b_item b)) \<noteq> b_frame b
         then setCurrentFrame (currentFrame (items s1 (b_item b))) s1
         else s1)"
| "run_handler Noop b s = s"
| "run_handler DataReadyHandler b s =
     triggerEvent (b_onPlayerEvent b) Ready s"
| "run_handler DataFailedHandler b s =
     setPlayerState LottiePlayerState.Error s"
| "run_handler DOMLoadedHandler b s =
     (let s1 = triggerEvent (b_onPlayerEvent b) Load s
      in setPlayerState (if autoplay (items s1 (b_item b)) then Playing else Stopped) s1)"

definition call_callback :: "callback \<Rightarrow> world \<Rightarrow> world" where
  "call_callback cb s = run_handler (cb_body cb) (cb_env cb) s"

definition make_callback :: "binding \<Rightarrow> handler \<Rightarrow> callback" where
  "make_callback b h = \<lparr>cb_body = h, cb_env = b\<rparr>"

text \<open>
  \<open>listeners.map((listener) => { try { animationItem?.addEventListener(...) } catch (e) {} ... })\<close>
\<close>

fun register_listeners ::
    "binding \<Rightarrow> (AnimationEventName \<times> handler) list \<Rightarrow> world \<Rightarrow> world outcome" where
  "register_listeners b [] s = Returned s"
| "register_listeners b (l # ls) s =
     andThen (tryCatch (addEventListener (b_item b) (fst l) (make_callback b (snd l)) s))
       (register_listeners b ls)"

text \<open>
  \<open>listenerDeregisterList.forEach((deregister) => deregister())\<close>, each \<open>deregister\<close> being
  \<open>try { animationItem?.removeEventListener(listener.name, listener.handler) } catch (e) {}\<close>.
\<close>

fun deregister_listeners ::
    "binding \<Rightarrow> (AnimationEventName \<times> handler) list \<Rightarrow> world \<Rightarrow> world outcome" where
  "deregister_listeners b [] s = Returned s"
| "deregister_listeners b (l # ls) s =
     andThen (tryCatch (removeEventListener (b_item b) (fst l) (make_callback b (snd l)) s))
       (deregister_listeners b ls)"

text \<open>The cleanup function the effect returns ("Cleanup on unmount").\<close>

definition run_cleanup :: "binding \<Rightarrow> world \<Rightarrow> world outcome" where
  "run_cleanup b s =
     andThen (deregister_listeners b listeners s)
       (\<lambda>s1. Returned (setPlayerState Loading s1))"

text \<open>
  The body of the effect, run with the variables of the render that scheduled it.
  Without a handle it only logs and returns no cleanup function; the logger is not
  modelled.
\<close>

definition useEffect_body :: "scope \<Rightarrow> world \<Rightarrow> world outcome" where
  "useEffect_body env s =
     (case r_animationItem env of
        None \<Rightarrow> Returned (s\<lparr>cleanup := None\<rparr>)
      | Some item \<Rightarrow>
          (let b = \<lparr>b_item = item, b_effect = effectRuns s, b_frame = r_currentFrame env,
                    b_onPlayerEvent = r_onPlayerEvent env\<rparr>;
               s1 = setPlayerState Loading (s\<lparr>effectRuns := Suc (effectRuns s)\<rparr>)
           in andThen (register_listeners b listeners s1)
                (\<lambda>s2. Returned (s2\<lparr>cleanup := Some b\<rparr>))))"

subsection \<open>The playback methods of the handle\<close>

text \<open>
  The handle dispatches an event to the callbacks registered under its name, in
  registration order.
\<close>

definition dispatch :: "ref \<Rightarrow> AnimationEventName \<Rightarrow> world \<Rightarrow> world" where
  "dispatch r name s =
     fold (\<lambda>e s1. if fst e = name then call_callback (snd e) s1 else s1) (cbs (items s r)) s"

fun do_step :: "ref \<Rightarrow> engine_step \<Rightarrow> world \<Rightarrow> world" where
  "do_step r (SetFrame v) s = s\<lparr>items := (items s)(r := (items s r)\<lparr>currentFrame := v\<rparr>)\<rparr>"
| "do_step r (Dispatch name) s = dispatch r name s"

text \<open>
  A call of \<open>play\<close>, \<open>pause\<close>, \<open>goToAndStop\<close>, \<open>goToAndPlay\<close> or \<open>setSpeed\<close> on the handle
  \<open>r\<close>: the call, and then what the handle does before the call returns.
\<close>

definition item_call :: "ref \<Rightarrow> call \<Rightarrow> world \<Rightarrow> world" where
  "item_call r c s =
     (let s1 = record_call c s
      in fold (do_step r) (reaction (items s1 r) c) s1)"

subsection \<open>Interaction methods\<close>

text \<open>
  Each method is created by a render and reads \<open>animationItem\<close>, \<open>triggerEvent\<close> and
  \<open>playerState\<close> as that render had them: the first argument.
\<close>

definition play :: "scope \<Rightarrow> world \<Rightarrow> world outcome" where
  "play env s =
     (case r_animationItem env of
        Some item \<Rightarrow>
          (let s1 = triggerEvent (r_onPlayerEvent env) Play s;
               s2 = item_call item (ItemPlay item) s1
           in Returned (setPlayerState Playing s2))
      | None \<Rightarrow> Returned s)"

definition pause :: "scope \<Rightarrow> world \<Rightarrow> world outcome" where
  "pause env s =
     (case r_animationItem env of
        Some item \<Rightarrow>
          (let s1 = triggerEvent (r_onPlayerEvent env) Pause s;
               s2 = item_call item (ItemPause item) s1
           in Returned (setPlayerState Paused s2))
      | None \<Rightarrow> Returned s)"

definition stop :: "scope \<Rightarrow> world \<Rightarrow> world outcome" where
  "stop env s =
     (case r_animationItem env of
        Some item \<Rightarrow>
          (let s1 = triggerEvent (r_onPlayerEvent env) Stop s;
               s2 = item_call item (GoToAndStop item 1 None) s1
           in Returned (setPlayerState Stopped s2))
      | None \<Rightarrow> Returned s)"

definition setSpeed :: "scope \<Rightarrow> number \<Rightarrow> world \<Rightarrow> world outcome" where
  "setSpeed env speed s =
     (case r_animationItem env of
        Some item \<Rightarrow> Returned (item_call item (SetSpeed item speed) s)
      | None \<Rightarrow> Returned s)"

definition setSeeker :: "scope \<Rightarrow> number \<Rightarrow> bool \<Rightarrow> world \<Rightarrow> world outcome" where
  "setSeeker env seek shouldPlay s =
     (if \<not> shouldPlay \<or> r_playerState env \<noteq> Playing then
        (let s1 = (case r_animationItem env of
                     Some item \<Rightarrow> item_call item (GoToAndStop item seek (Some True)) s
                   | None \<Rightarrow> s)
         in Returned (setPlayerState Paused s1))
      else
        (let s1 = (case r_animationItem env of
                     Some item \<Rightarrow> item_call item (GoToAndPlay item seek (Some True)) s
                   | None \<Rightarrow> s)
         in Returned (setPlayerState Playing s1)))"

subsection \<open>The host and the engine\<close>

text \<open>
  The state after the first render, made without a handle:
  \<open>usePlayerState({ initialState: LottiePlayerState.Loading })\<close>, \<open>useState<number>(0)\<close>,
  no listener registered.
\<close>

definition initial :: "hostfn option \<Rightarrow> bool \<Rightarrow> (ref \<Rightarrow> AnimationItem) \<Rightarrow> world" where
  "initial onEvent onStateChange heap =
     \<lparr>onPlayerStateChange = onStateChange,
      rendered = \<lparr>r_animationItem = None, r_onPlayerEvent = onEvent,
                  r_playerState = Loading, r_currentFrame = 0\<rparr>,
      playerState = Loading, hookCurrentFrame = 0, cleanup = None, effectRuns = 0,
      items = heap, calls = []\<rparr>"

text \<open>Running the cleanup function of the last effect run, if there is one.\<close>

definition teardown :: "world \<Rightarrow> world outcome" where
  "teardown s =
     (case cleanup s of
        None \<Rightarrow> Returned s
      | Some b \<Rightarrow> andThen (run_cleanup b s) (\<lambda>s1. Returned (s1\<lparr>cleanup := None\<rparr>)))"

text \<open>
  A render of the hook with the arguments \<open>animationItem\<close> and \<open>onPlayerEvent\<close>. Its
  functions see the React state as it is now. The effect has the dependency list
  \<open>[animationItem]\<close>: after a render with the same handle as the render before, nothing
  runs and the registered handlers stay those of the earlier run; after a render with
  another handle the cleanup function of the previous run runs and then the body of the
  effect.
\<close>

definition render :: "ref option \<Rightarrow> hostfn option \<Rightarrow> world \<Rightarrow> world outcome" where
  "render item onEvent s =
     (let env = \<lparr>r_animationItem = item, r_onPlayerEvent = onEvent,
                  r_playerState = playerState s, r_currentFrame = hookCurrentFrame s\<rparr>;
          s1 = s\<lparr>rendered := env\<rparr>
      in if item = r_animationItem (rendered s) then Returned s1
         else andThen (teardown s1) (useEffect_body env))"

definition unmount :: "world \<Rightarrow> world outcome" where
  "unmount s = teardown s"

text \<open>
  The engine: the handle dispatches an event, changes what it reports, or changes what
  it does during its playback methods.
\<close>

definition fire :: "ref \<Rightarrow> AnimationEventName \<Rightarrow> world \<Rightarrow> world outcome" where
  "fire r name s = Returned (dispatch r name s)"

definition engine_set :: "ref \<Rightarrow> bool \<Rightarrow> number \<Rightarrow> bool \<Rightarrow> bool \<Rightarrow> world \<Rightarrow> world outcome" where
  "engine_set r ap fr ath rth s =
     Returned (s\<lparr>items := (items s)
        (r := (items s r)\<lparr>autoplay := ap, currentFrame := fr,
                              addThrows := ath, removeThrows := rth\<rparr>)\<rparr>)"

definition engine_reaction :: "ref \<Rightarrow> (call \<Rightarrow> engine_step list) \<Rightarrow> world \<Rightarrow> world outcome" where
  "engine_reaction r f s =
     Returned (s\<lparr>items := (items s)(r := (items s r)\<lparr>reaction := f\<rparr>)\<rparr>)"

text \<open>A call of one of the functions the hook returned.\<close>

datatype control = MPlay | MPause | MStop | MSetSpeed number | MSetSeeker number bool

fun invoke :: "control \<Rightarrow> scope \<Rightarrow> world \<Rightarrow> world outcome" where
  "invoke MPlay env s = play env s"
| "invoke MPause env s = pause env s"
| "invoke MStop env s = stop env s"
| "invoke (MSetSpeed speed) env s = setSpeed env speed s"
| "invoke (MSetSeeker seek shouldPlay) env s = setSeeker env seek shouldPlay s"

text \<open>
  \<open>Call\<close> calls a function of the latest render; \<open>CallKept\<close> calls a function the host
  kept from another render, whose variables are given.
\<close>

datatype action =
    Render "ref option" "hostfn option"
  | Unmount
  | EngineEvent ref AnimationEventName
  | EngineSet ref bool number bool bool
  | EngineReaction ref "call \<Rightarrow> engine_step list"
  | Call control
  | CallKept scope control

fun step :: "action \<Rightarrow> world \<Rightarrow> world outcome" where
  "step (Render item onEvent) s = render item onEvent s"
| "step Unmount s = unmount s"
| "step (EngineEvent r name) s = fire r name s"
| "step (EngineSet r ap fr ath rth) s = engine_set r ap fr ath rth s"
| "step (EngineReaction r f) s = engine_reaction r f s"
| "step (Call m) s = invoke m (rendered s) s"
| "step (CallKept env m) s = invoke m env s"

fun run :: "action list \<Rightarrow> world \<Rightarrow> world outcome" where
  "run [] s = Returned s"
| "run (a # as) s = andThen (step a s) (run as)"

text \<open>The events passed to \<open>onPlayerEvent\<close>, in order, whichever function received them.\<close>

fun emitted_of :: "call list \<Rightarrow> LottiePlayerEvent list" where
  "emitted_of [] = []"
| "emitted_of (OnPlayerEvent f e # cs) = e # emitted_of cs"
| "emitted_of (c # cs) = emitted_of cs"

definition emitted :: "world \<Rightarrow> LottiePlayerEvent list" where
  "emitted s = emitted_of (calls s)"

text \<open>The calls of the handles' playback methods, in order.\<close>

fun handle_calls :: "call list \<Rightarrow> call list" where
  "handle_calls [] = []"
| "handle_calls (ItemPlay r # cs) = ItemPlay r # handle_calls cs"
| "handle_calls (ItemPause r # cs) = ItemPause r # handle_calls cs"
| "handle_calls (GoToAndStop r v f # cs) = GoToAndStop r v f # handle_calls cs"
| "handle_calls (GoToAndPlay r v f # cs) = GoToAndPlay r v f # handle_calls cs"
| "handle_calls (SetSpeed r v # cs) = SetSpeed r v # handle_calls cs"
| "handle_calls (c # cs) = handle_calls cs"

subsection \<open>Vocabulary of the statements\<close>

text \<open>
  The calls one run of the effect makes to register its listeners, the calls its cleanup
  function makes to deregister them, and the callbacks the handle holds for the run when
  no registration threw.
\<close>

definition registrations :: "binding \<Rightarrow> call list" where
  "registrations b =
     map (\<lambda>l. AddEventListener (b_item b) (fst l) (make_callback b (snd l))) listeners"

definition removals :: "binding \<Rightarrow> call list" where
  "removals b =
     map (\<lambda>l. RemoveEventListener (b_item b) (fst l) (make_callback b (snd l))) listeners"

definition registered :: "binding \<Rightarrow> (AnimationEventName \<times> callback) list" where
  "registered b = map (\<lambda>l. (fst l, make_callback b (snd l))) listeners"

text \<open>The change notification \<open>setPlayerState next\<close> sends from the world \<open>s\<close>.\<close>

definition notified :: "LottiePlayerState \<Rightarrow> world \<Rightarrow> call list" where
  "notified next s =
     (if next \<noteq> playerState s \<and> onPlayerStateChange s then [OnPlayerStateChange next] else [])"

text \<open>
  The calls the handlers make while the handle \<open>r\<close> executes the call \<open>c\<close>: what the
  call adds to the calls of the world, after \<open>c\<close> itself.
\<close>

definition during :: "ref \<Rightarrow> call \<Rightarrow> world \<Rightarrow> call list" where
  "during r c s = drop (Suc (length (calls s))) (calls (item_call r c s))"

text \<open>
  The invariant of the state machine: the state is not \<open>Frozen\<close> and was never set to
  it, and neither \<open>Error\<close> nor \<open>Freeze\<close> was passed to \<open>onPlayerEvent\<close>.
\<close>

definition good :: "world \<Rightarrow> bool" where
  "good s =
     (playerState s \<noteq> Frozen \<and> SetPlayerState Frozen \<notin> set (calls s)
      \<and> LottiePlayerEvent.Error \<notin> set (emitted_of (calls s))
      \<and> Freeze \<notin> set (emitted_of (calls s)))"

text \<open>
  Concrete handles and a concrete host. \<open>seeking\<close> is what a handle does on
  \<open>goToAndStop(value, true)\<close> and \<open>goToAndPlay(value, true)\<close> when, like lottie-web, it
  moves to the frame and dispatches \<open>enterFrame\<close> before the method returns.
  \<open>fresh_item\<close> is such a handle just created, \<open>unready_item\<close> one on which registration
  and deregistration throw; \<open>host\<close> supplies both callbacks and holds ready handles only.
\<close>

fun seeking :: "call \<Rightarrow> engine_step list" where
  "seeking (GoToAndStop r v (Some True)) = [SetFrame v, Dispatch ''enterFrame'']"
| "seeking (GoToAndPlay r v (Some True)) = [SetFrame v, Dispatch ''enterFrame'']"
| "seeking c = []"

definition fresh_item :: AnimationItem where
  "fresh_item =
     \<lparr>autoplay = True, currentFrame = 0, cbs = [], addThrows = False, removeThrows = False,
      reaction = seeking\<rparr>"

definition unready_item :: AnimationItem where
  "unready_item =
     \<lparr>autoplay = False, currentFrame = 0, cbs = [], addThrows = True, removeThrows = True,
      reaction = seeking\<rparr>"

definition host :: world where
  "host = initial (Some 0) True (\<lambda>r. fresh_item)"

text \<open>
  \<open>bound_host\<close> is the host after a render with the handle 0 and the callback 0, and
  \<open>first_binding\<close> what the handlers registered by that render captured.
  \<open>stopped_host\<close> is the host after that render, the load of a handle without autoplay
  and the render that follows the change of state: the player state is \<open>Stopped\<close>, and
  so is the \<open>playerState\<close> its functions see.
\<close>

definition first_binding :: binding where
  "first_binding = \<lparr>b_item = 0, b_effect = 0, b_frame = 0, b_onPlayerEvent = Some 0\<rparr>"

definition bound_host :: world where
  "bound_host = result (render (Some 0) (Some 0) host)"

definition stopped_host :: world where
  "stopped_host =
     result (run [Render (Some 0) (Some 0), EngineSet 0 False 0 False False,
                  EngineEvent 0 ''DOMLoaded'', Render (Some 0) (Some 0)] host)"

text \<open>
  \<open>played_host\<close> is \<open>stopped_host\<close> after a call of \<open>play\<close> and before the next render:
  the state was set to \<open>Playing\<close>, the functions the host holds still see \<open>Stopped\<close>.
  \<open>replayed_host\<close> is \<open>played_host\<close> after that render.
\<close>

definition played_host :: world where
  "played_host = result (play (rendered stopped_host) stopped_host)"

definition replayed_host :: world where
  "replayed_host = result (render (Some 0) (Some 0) played_host)"

text \<open>
  Two hosts that change \<open>onPlayerEvent\<close> after the handle 0 was bound: \<open>late_host\<close>
  supplied no callback at the render that bound the handle and the callback 3 at the next
  render, \<open>replacing_host\<close> supplied the callback 1 first and the callback 3 then.
\<close>

definition late_host :: world where
  "late_host = result (run [Render (Some 0) None, Render (Some 0) (Some 3)] host)"

definition replacing_host :: world where
  "replacing_host = result (run [Render (Some 0) (Some 1), Render (Some 0) (Some 3)] host)"

section \<open>Properties\<close>

subsection \<open>Outcomes\<close>

lemmas prim_defs =
  record_call_def onChange_def setPlayerState_def setCurrentFrame_def triggerEvent_def

lemma tryCatch_result: "tryCatch m = Returned (result m)"
  by (cases m) simp_all

lemma returns_andThen: "returns m \<Longrightarrow> (\<And>s. returns (f s)) \<Longrightarrow> returns (andThen m f)"
  by (cases m) simp_all

subsection \<open>Registration and deregistration\<close>

lemma returns_register: "returns (register_listeners b ls s)"
  by (induction ls arbitrary: s) (simp_all add: tryCatch_result)

lemma returns_deregister: "returns (deregister_listeners b ls s)"
  by (induction ls arbitrary: s) (simp_all add: tryCatch_result)

lemma add_frame:
  "playerState (result (addEventListener r n cb s)) = playerState s"
  "onPlayerStateChange (result (addEventListener r n cb s)) = onPlayerStateChange s"
  "rendered (result (addEventListener r n cb s)) = rendered s"
  "hookCurrentFrame (result (addEventListener r n cb s)) = hookCurrentFrame s"
  "cleanup (result (addEventListener r n cb s)) = cleanup s"
  "effectRuns (result (addEventListener r n cb s)) = effectRuns s"
  "calls (result (addEventListener r n cb s)) = calls s @ [AddEventListener r n cb]"
  by (simp_all add: addEventListener_def record_call_def Let_def)

lemma remove_frame:
  "playerState (result (removeEventListener r n cb s)) = playerState s"
  "onPlayerStateChange (result (removeEventListener r n cb s)) = onPlayerStateChange s"
  "rendered (result (removeEventListener r n cb s)) = rendered s"
  "hookCurrentFrame (result (removeEventListener r n cb s)) = hookCurrentFrame s"
  "cleanup (result (removeEventListener r n cb s)) = cleanup s"
  "effectRuns (result (removeEventListener r n cb s)) = effectRuns s"
  "calls (result (removeEventListener r n cb s)) = calls s @ [RemoveEventListener r n cb]"
  by (simp_all add: removeEventListener_def record_call_def Let_def)

lemma register_frame:
  "playerState (result (register_listeners b ls s)) = playerState s"
  "onPlayerStateChange (result (register_listeners b ls s)) = onPlayerStateChange s"
  "rendered (result (register_listeners b ls s)) = rendered s"
  "hookCurrentFrame (result (register_listeners b ls s)) = hookCurrentFrame s"
  "cleanup (result (register_listeners b ls s)) = cleanup s"
  "effectRuns (result (register_listeners b ls s)) = effectRuns s"
  by (induction ls arbitrary: s; simp add: tryCatch_result add_frame)+

lemma deregister_frame:
  "playerState (result (deregister_listeners b ls s)) = playerState s"
  "onPlayerStateChange (result (deregister_listeners b ls s)) = onPlayerStateChange s"
  "rendered (result (deregister_listeners b ls s)) = rendered s"
  "hookCurrentFrame (result (deregister_listeners b ls s)) = hookCurrentFrame s"
  "cleanup (result (deregister_listeners b ls s)) = cleanup s"
  "effectRuns (result (deregister_listeners b ls s)) = effectRuns s"
  by (induction ls arbitrary: s; simp add: tryCatch_result remove_frame)+

lemma register_calls:
  "calls (result (register_listeners b ls s)) =
     calls s @ map (\<lambda>l. AddEventListener (b_item b) (fst l) (make_callback b (snd l))) ls"
  by (induction ls arbitrary: s) (simp_all add: tryCatch_result add_frame)

lemma deregister_calls:
  "calls (result (deregister_listeners b ls s)) =
     calls s @ map (\<lambda>l. RemoveEventListener (b_item b) (fst l) (make_callback b (snd l))) ls"
  by (induction ls arbitrary: s) (simp_all add: tryCatch_result remove_frame)

lemma emitted_of_append: "emitted_of (xs @ ys) = emitted_of xs @ emitted_of ys"
  by (induction xs rule: emitted_of.induct) simp_all

lemma set_emitted_of: "e \<in> set (emitted_of cs) \<longleftrightarrow> (\<exists>f. OnPlayerEvent f e \<in> set cs)"
  by (induction cs rule: emitted_of.induct) auto


lemma emitted_of_map_add [simp]:
  "emitted_of (map (\<lambda>l. AddEventListener r (f l) (g l)) ls) = []"
  "emitted_of (map (\<lambda>l. RemoveEventListener r (f l) (g l)) ls) = []"
  by (induction ls) simp_all

lemma handle_calls_map_add [simp]:
  "handle_calls (map (\<lambda>l. AddEventListener r (f l) (g l)) ls) = []"
  "handle_calls (map (\<lambda>l. RemoveEventListener r (f l) (g l)) ls) = []"
  by (induction ls) simp_all

subsection \<open>What the state setters and the handle change\<close>

lemma notified_update [simp]:
  "notified x (s\<lparr>items := h\<rparr>) = notified x s"
  "notified x (s\<lparr>cleanup := c\<rparr>) = notified x s"
  "notified x (s\<lparr>rendered := a\<rparr>) = notified x s"
  "notified x (s\<lparr>effectRuns := n\<rparr>) = notified x s"
  "notified x (s\<lparr>hookCurrentFrame := v\<rparr>) = notified x s"
  "notified x (s\<lparr>calls := cs\<rparr>) = notified x s"
  by (simp_all add: notified_def)

lemma setPlayerState_frame:
  "playerState (setPlayerState x s) = x"
  "calls (setPlayerState x s) = calls s @ [SetPlayerState x] @ notified x s"
  "onPlayerStateChange (setPlayerState x s) = onPlayerStateChange s"
  "rendered (setPlayerState x s) = rendered s"
  "hookCurrentFrame (setPlayerState x s) = hookCurrentFrame s"
  "cleanup (setPlayerState x s) = cleanup s"
  "effectRuns (setPlayerState x s) = effectRuns s"
  "items (setPlayerState x s) = items s"
  by (simp_all add: prim_defs notified_def Let_def)

lemma triggerEvent_frame:
  "playerState (triggerEvent oe e s) = playerState s"
  "calls (triggerEvent oe e s) =
     calls s @ (case oe of Some f \<Rightarrow> [OnPlayerEvent f e] | None \<Rightarrow> [])"
  "onPlayerStateChange (triggerEvent oe e s) = onPlayerStateChange s"
  "rendered (triggerEvent oe e s) = rendered s"
  "hookCurrentFrame (triggerEvent oe e s) = hookCurrentFrame s"
  "cleanup (triggerEvent oe e s) = cleanup s"
  "effectRuns (triggerEvent oe e s) = effectRuns s"
  "items (triggerEvent oe e s) = items s"
  by (simp_all add: prim_defs split: option.split)

lemma notified_triggerEvent [simp]: "notified x (triggerEvent oe e s) = notified x s"
  by (simp add: notified_def triggerEvent_frame)

lemma setCurrentFrame_frame:
  "playerState (setCurrentFrame v s) = playerState s"
  "calls (setCurrentFrame v s) = calls s @ [SetCurrentFrame v]"
  "onPlayerStateChange (setCurrentFrame v s) = onPlayerStateChange s"
  "rendered (setCurrentFrame v s) = rendered s"
  "hookCurrentFrame (setCurrentFrame v s) = v"
  "cleanup (setCurrentFrame v s) = cleanup s"
  "effectRuns (setCurrentFrame v s) = effectRuns s"
  "items (setCurrentFrame v s) = items s"
  by (simp_all add: prim_defs)

subsection \<open>What the handlers change\<close>

text \<open>
  A handler leaves the handles, the latest render and the cleanup function alone, it
  only adds calls, and none of the calls it adds is a call of a playback method.
\<close>

lemma run_handler_frame:
  "items (run_handler h b s) = items s"
  "rendered (run_handler h b s) = rendered s"
  "cleanup (run_handler h b s) = cleanup s"
  "effectRuns (run_handler h b s) = effectRuns s"
  "onPlayerStateChange (run_handler h b s) = onPlayerStateChange s"
  by (cases h; simp add: Let_def setPlayerState_frame triggerEvent_frame setCurrentFrame_frame)+


lemma dispatch_fold_frame:
  "items (fold (\<lambda>e s1. if fst e = name then call_callback (snd e) s1 else s1) es s) = items s"
  "rendered (fold (\<lambda>e s1. if fst e = name then call_callback (snd e) s1 else s1) es s) = rendered s"
  "cleanup (fold (\<lambda>e s1. if fst e = name then call_callback (snd e) s1 else s1) es s) = cleanup s"
  "effectRuns (fold (\<lambda>e s1. if fst e = name then call_callback (snd e) s1 else s1) es s)
     = effectRuns s"
  "onPlayerStateChange (fold (\<lambda>e s1. if fst e = name then call_callback (snd e) s1 else s1) es s)
     = onPlayerStateChange s"
  by (induction es arbitrary: s; simp add: call_callback_def run_handler_frame)+


lemma dispatch_frame:
  "items (dispatch r name s) = items s"
  "rendered (dispatch r name s) = rendered s"
  "cleanup (dispatch r name s) = cleanup s"
  "effectRuns (dispatch r name s) = effectRuns s"
  "onPlayerStateChange (dispatch r name s) = onPlayerStateChange s"
  by (simp_all add: dispatch_def dispatch_fold_frame)


lemma do_step_frame:
  "rendered (do_step r st s) = rendered s"
  "cleanup (do_step r st s) = cleanup s"
  "effectRuns (do_step r st s) = effectRuns s"
  "onPlayerStateChange (do_step r st s) = onPlayerStateChange s"
  by (cases st; simp add: dispatch_frame)+


lemma do_steps_frame:
  "rendered (fold (do_step r) sts s) = rendered s"
  "cleanup (fold (do_step r) sts s) = cleanup s"
  "effectRuns (fold (do_step r) sts s) = effectRuns s"
  "onPlayerStateChange (fold (do_step r) sts s) = onPlayerStateChange s"
  by (induction sts arbitrary: s; simp add: do_step_frame)+


lemma item_call_frame:
  "rendered (item_call r c s) = rendered s"
  "cleanup (item_call r c s) = cleanup s"
  "effectRuns (item_call r c s) = effectRuns s"
  "onPlayerStateChange (item_call r c s) = onPlayerStateChange s"
  by (simp_all add: item_call_def Let_def do_steps_frame record_call_def)




lemma during_idle: "reaction (items s r) c = [] \<Longrightarrow> during r c s = []"
  by (simp add: during_def item_call_def Let_def record_call_def)

subsection \<open>The invariant of every operation\<close>

lemma good_record_call:
  "good s \<Longrightarrow> c \<noteq> SetPlayerState Frozen \<Longrightarrow> emitted_of [c] \<noteq> [LottiePlayerEvent.Error]
     \<Longrightarrow> emitted_of [c] \<noteq> [Freeze] \<Longrightarrow> good (record_call c s)"
  by (cases c) (auto simp add: good_def record_call_def emitted_of_append)

lemma good_update [simp]:
  "good (s\<lparr>items := h\<rparr>) = good s"
  "good (s\<lparr>cleanup := c\<rparr>) = good s"
  "good (s\<lparr>rendered := a\<rparr>) = good s"
  "good (s\<lparr>effectRuns := n\<rparr>) = good s"
  "good (s\<lparr>hookCurrentFrame := v\<rparr>) = good s"
  by (simp_all add: good_def)

lemma good_setPlayerState: "good s \<Longrightarrow> x \<noteq> Frozen \<Longrightarrow> good (setPlayerState x s)"
  by (auto simp add: good_def prim_defs Let_def emitted_of_append)

lemma good_triggerEvent:
  "good s \<Longrightarrow> e \<noteq> LottiePlayerEvent.Error \<Longrightarrow> e \<noteq> Freeze \<Longrightarrow> good (triggerEvent oe e s)"
  by (auto simp add: good_def prim_defs emitted_of_append split: option.split)

lemma good_setCurrentFrame: "good s \<Longrightarrow> good (setCurrentFrame v s)"
  by (simp add: good_def prim_defs emitted_of_append)

lemma good_run_handler: "good s \<Longrightarrow> good (run_handler h b s)"
  by (cases h) (simp_all add: Let_def good_setPlayerState good_triggerEvent good_setCurrentFrame)

lemma good_register: "good s \<Longrightarrow> good (result (register_listeners b ls s))"
  by (auto simp add: good_def register_frame register_calls emitted_of_append)

lemma good_deregister: "good s \<Longrightarrow> good (result (deregister_listeners b ls s))"
  by (auto simp add: good_def deregister_frame deregister_calls emitted_of_append)

lemma good_dispatch: "good s \<Longrightarrow> good (dispatch r name s)"
proof -
  have "good s \<Longrightarrow>
      good (fold (\<lambda>e s1. if fst e = name then call_callback (snd e) s1 else s1) es s)" for es s
    by (induction es arbitrary: s) (simp_all add: call_callback_def good_run_handler)
  then show "good s \<Longrightarrow> good (dispatch r name s)"
    by (simp add: dispatch_def)
qed

lemma good_do_step: "good s \<Longrightarrow> good (do_step r st s)"
  by (cases st) (simp_all add: good_dispatch)

lemma good_do_steps: "good s \<Longrightarrow> good (fold (do_step r) sts s)"
  by (induction sts arbitrary: s) (simp_all add: good_do_step)

lemma good_item_call:
  "good s \<Longrightarrow> c \<noteq> SetPlayerState Frozen \<Longrightarrow> emitted_of [c] \<noteq> [LottiePlayerEvent.Error]
     \<Longrightarrow> emitted_of [c] \<noteq> [Freeze] \<Longrightarrow> good (item_call r c s)"
  by (simp add: item_call_def Let_def good_do_steps good_record_call)

lemma returns_run_cleanup: "returns (run_cleanup b s)"
  by (simp add: run_cleanup_def returns_andThen returns_deregister)

lemma result_run_cleanup:
  "result (run_cleanup b s) = setPlayerState Loading (result (deregister_listeners b listeners s))"
  using returns_deregister [of b listeners s]
  by (cases "deregister_listeners b listeners s") (simp_all add: run_cleanup_def)

lemma returns_teardown: "returns (teardown s)"
  by (simp add: teardown_def returns_andThen returns_run_cleanup split: option.split)

lemma result_teardown:
  "result (teardown s) =
     (case cleanup s of None \<Rightarrow> s
      | Some b \<Rightarrow> (result (run_cleanup b s))\<lparr>cleanup := None\<rparr>)"
  using returns_run_cleanup [of "the (cleanup s)" s]
  by (cases "cleanup s"; cases "run_cleanup (the (cleanup s)) s") (simp_all add: teardown_def)

lemma returns_useEffect_body: "returns (useEffect_body env s)"
  by (simp add: useEffect_body_def Let_def returns_andThen returns_register split: option.split)

lemma result_useEffect_body:
  "result (useEffect_body env s) =
     (case r_animationItem env of None \<Rightarrow> s\<lparr>cleanup := None\<rparr>
      | Some item \<Rightarrow>
          (result (register_listeners
             \<lparr>b_item = item, b_effect = effectRuns s, b_frame = r_currentFrame env,
               b_onPlayerEvent = r_onPlayerEvent env\<rparr> listeners
             (setPlayerState Loading (s\<lparr>effectRuns := Suc (effectRuns s)\<rparr>))))
          \<lparr>cleanup := Some \<lparr>b_item = item, b_effect = effectRuns s, b_frame = r_currentFrame env,
               b_onPlayerEvent = r_onPlayerEvent env\<rparr>\<rparr>)"
proof (cases "r_animationItem env")
  case None
  then show ?thesis by (simp add: useEffect_body_def)
next
  case (Some item)
  let ?b = "\<lparr>b_item = item, b_effect = effectRuns s, b_frame = r_currentFrame env,
      b_onPlayerEvent = r_onPlayerEvent env\<rparr>"
  let ?s1 = "setPlayerState Loading (s\<lparr>effectRuns := Suc (effectRuns s)\<rparr>)"
  from returns_register [of ?b listeners ?s1]
  obtain s2 where "register_listeners ?b listeners ?s1 = Returned s2"
    by (cases "register_listeners ?b listeners ?s1") simp_all
  with Some show ?thesis by (simp add: useEffect_body_def Let_def)
qed

lemma returns_render: "returns (render item onEvent s)"
  by (simp add: render_def Let_def returns_andThen returns_teardown returns_useEffect_body)

lemma result_render:
  "result (render item onEvent s) =
     (if item = r_animationItem (rendered s)
      then s\<lparr>rendered := \<lparr>r_animationItem = item, r_onPlayerEvent = onEvent,
               r_playerState = playerState s, r_currentFrame = hookCurrentFrame s\<rparr>\<rparr>
      else result (useEffect_body
             \<lparr>r_animationItem = item, r_onPlayerEvent = onEvent,
               r_playerState = playerState s, r_currentFrame = hookCurrentFrame s\<rparr>
             (result (teardown (s\<lparr>rendered := \<lparr>r_animationItem = item, r_onPlayerEvent = onEvent,
               r_playerState = playerState s, r_currentFrame = hookCurrentFrame s\<rparr>\<rparr>)))))"
proof -
  let ?env = "\<lparr>r_animationItem = item, r_onPlayerEvent = onEvent,
               r_playerState = playerState s, r_currentFrame = hookCurrentFrame s\<rparr>"
  show ?thesis
    using returns_teardown [of "s\<lparr>rendered := ?env\<rparr>"]
    by (cases "teardown (s\<lparr>rendered := ?env\<rparr>)") (simp_all add: render_def Let_def)
qed

lemma good_teardown: "good s \<Longrightarrow> good (result (teardown s))"
  by (simp add: result_teardown result_run_cleanup good_setPlayerState good_deregister
      split: option.split)

lemma good_useEffect_body: "good s \<Longrightarrow> good (result (useEffect_body env s))"
  by (simp add: result_useEffect_body good_register good_setPlayerState split: option.split)

lemma good_render: "good s \<Longrightarrow> good (result (render item onEvent s))"
  by (simp add: result_render good_useEffect_body good_teardown)

lemma good_invoke: "good s \<Longrightarrow> good (result (invoke m env s))"
  by (cases m)
    (simp_all add: play_def pause_def stop_def setSpeed_def setSeeker_def Let_def
      good_setPlayerState good_triggerEvent good_item_call split: option.split)

lemma good_step: "good s \<Longrightarrow> good (result (step a s))"
  by (cases a)
    (simp_all add: good_render good_teardown good_invoke good_dispatch
      unmount_def fire_def engine_set_def engine_reaction_def)

lemma returns_invoke: "returns (invoke m env s)"
  by (cases m)
    (simp_all add: play_def pause_def stop_def setSpeed_def setSeeker_def Let_def
      split: option.split)

lemma returns_step: "returns (step a s)"
  by (cases a)
    (simp_all add: returns_render returns_teardown returns_invoke unmount_def fire_def
      engine_set_def engine_reaction_def)

lemma returns_run: "returns (run acts s)"
  by (induction acts arbitrary: s) (simp_all add: returns_andThen returns_step)

lemma run_Cons_result: "result (run (a # acts) s) = result (run acts (result (step a s)))"
  using returns_step [of a s] by (cases "step a s") simp_all

lemma good_run: "good s \<Longrightarrow> good (result (run acts s))"
  by (induction acts arbitrary: s) (simp_all add: run_Cons_result good_step del: run.simps(2))

lemma good_initial: "good (initial e c h)"
  by (simp add: good_def initial_def)

lemma remove_items:
  "items (result (removeEventListener r n cb s)) =
     (if removeThrows (items s r) then items s
      else (items s)(r := (items s r)\<lparr>cbs := removeAll (n, cb) (cbs (items s r))\<rparr>))"
  by (simp add: removeEventListener_def record_call_def Let_def)

lemma add_items:
  "items (result (addEventListener r n cb s)) =
     (if addThrows (items s r) then items s
      else (items s)(r := (items s r)\<lparr>cbs := cbs (items s r) @ [(n, cb)]\<rparr>))"
  by (simp add: addEventListener_def record_call_def Let_def)

lemma register_items_throw:
  "addThrows (items s (b_item b)) \<Longrightarrow> items (result (register_listeners b ls s)) = items s"
  by (induction ls arbitrary: s) (simp_all add: tryCatch_result add_items)

lemma deregister_items_throw:
  "removeThrows (items s (b_item b)) \<Longrightarrow> items (result (deregister_listeners b ls s)) = items s"
  by (induction ls arbitrary: s) (simp_all add: tryCatch_result remove_items)

lemma register_items:
  "\<not> addThrows (items s (b_item b)) \<Longrightarrow>
   items (result (register_listeners b ls s)) =
     (items s)(b_item b := (items s (b_item b))
        \<lparr>cbs := cbs (items s (b_item b)) @ map (\<lambda>l. (fst l, make_callback b (snd l))) ls\<rparr>)"
  by (induction ls arbitrary: s) (simp_all add: tryCatch_result add_items)

lemma deregister_items:
  "\<not> removeThrows (items s (b_item b)) \<Longrightarrow>
   items (result (deregister_listeners b ls s)) =
     (items s)(b_item b := (items s (b_item b))
        \<lparr>cbs := filter (\<lambda>e. e \<notin> set (map (\<lambda>l. (fst l, make_callback b (snd l))) ls))
                  (cbs (items s (b_item b)))\<rparr>)"
proof (induction ls arbitrary: s)
  case Nil
  then show ?case by simp
next
  case (Cons l ls)
  let ?s1 = "result (removeEventListener (b_item b) (fst l) (make_callback b (snd l)) s)"
  from Cons.prems have "\<not> removeThrows (items ?s1 (b_item b))"
    by (simp add: remove_items)
  moreover have "filter (\<lambda>x. a \<noteq> x \<and> P x) xs = filter (\<lambda>x. x \<noteq> a \<and> P x) xs"
    for a :: "AnimationEventName \<times> callback" and P xs
    by (rule filter_cong) auto
  ultimately show ?case
    using Cons.IH [of ?s1] Cons.prems
    by (simp add: tryCatch_result remove_items removeAll_filter_not_eq fun_eq_iff)
qed

subsection \<open>Evaluation on concrete worlds\<close>

lemmas eval_defs =
  bound_host_def stopped_host_def played_host_def replayed_host_def late_host_def
  replacing_host_def first_binding_def host_def initial_def fresh_item_def unready_item_def render_def unmount_def teardown_def
  run_cleanup_def useEffect_body_def listeners_def make_callback_def addEventListener_def
  removeEventListener_def fire_def dispatch_def item_call_def engine_set_def
  engine_reaction_def call_callback_def play_def pause_def
  stop_def setSpeed_def setSeeker_def registered_def registrations_def removals_def
  notified_def emitted_def prim_defs Let_def

subsection \<open>Teardown and rebinding\<close>

lemma count_list_distinct: "distinct xs \<Longrightarrow> x \<in> set xs \<Longrightarrow> count_list xs x = 1"
  by (induction xs) auto

lemma distinct_listener_names: "distinct (map fst listeners)"
  by (simp add: listeners_def)

lemma distinct_removals: "distinct (removals b)"
proof -
  have "inj_on (\<lambda>l. RemoveEventListener (b_item b) (fst l) (make_callback b (snd l)))
          (set listeners)"
    by (auto simp add: inj_on_def make_callback_def)
  moreover have "distinct listeners"
    using distinct_listener_names by (simp add: distinct_map)
  ultimately show ?thesis
    by (simp add: removals_def distinct_map)
qed

lemma count_removals:
  "e \<in> set (registered b) \<Longrightarrow>
   count_list (removals b) (RemoveEventListener (b_item b) (fst e) (snd e)) = 1"
  by (rule count_list_distinct [OF distinct_removals])
    (force simp add: registered_def removals_def)

lemma teardown_Some:
  "cleanup s = Some b \<Longrightarrow>
   result (teardown s) =
     (setPlayerState Loading (result (deregister_listeners b listeners s)))\<lparr>cleanup := None\<rparr>"
  by (simp add: result_teardown result_run_cleanup)

lemma calls_teardown:
  "cleanup s = Some b \<Longrightarrow>
   calls (result (teardown s)) =
     calls s @ removals b @ [SetPlayerState Loading] @ notified Loading s"
  by (simp add: teardown_Some setPlayerState_frame deregister_calls removals_def)
    (simp add: notified_def deregister_frame)

lemma teardown_frame:
  "cleanup s = Some b \<Longrightarrow> playerState (result (teardown s)) = Loading"
  "cleanup s = Some b \<Longrightarrow> effectRuns (result (teardown s)) = effectRuns s"
  "cleanup s = Some b \<Longrightarrow> hookCurrentFrame (result (teardown s)) = hookCurrentFrame s"
  by (simp_all add: teardown_Some setPlayerState_frame deregister_frame)

lemma cbs_teardown:
  "cleanup s = Some b \<Longrightarrow> \<not> removeThrows (items s (b_item b)) \<Longrightarrow>
   e \<in> set (registered b) \<Longrightarrow> e \<notin> set (cbs (items (result (teardown s)) (b_item b)))"
  by (simp add: teardown_Some setPlayerState_frame deregister_items registered_def)

lemma calls_useEffect_body:
  "r_animationItem env = Some r \<Longrightarrow>
   calls (result (useEffect_body env s)) =
     calls s @ [SetPlayerState Loading] @ notified Loading s
       @ registrations \<lparr>b_item = r, b_effect = effectRuns s, b_frame = r_currentFrame env,
           b_onPlayerEvent = r_onPlayerEvent env\<rparr>"
  by (simp add: result_useEffect_body register_calls setPlayerState_frame registrations_def)

lemma calls_useEffect_body_None:
  "r_animationItem env = None \<Longrightarrow> calls (result (useEffect_body env s)) = calls s"
  by (simp add: result_useEffect_body)

lemma calls_rebind:
  assumes "cleanup s = Some b" and "item \<noteq> r_animationItem (rendered s)"
  shows "calls (result (render item onEvent s)) =
     calls (result (teardown s))
       @ (case item of
            None \<Rightarrow> []
          | Some r \<Rightarrow> [SetPlayerState Loading]
              @ registrations \<lparr>b_item = r, b_effect = effectRuns s, b_frame = hookCurrentFrame s,
                  b_onPlayerEvent = onEvent\<rparr>)"
proof -
  let ?env = "\<lparr>r_animationItem = item, r_onPlayerEvent = onEvent,
      r_playerState = playerState s, r_currentFrame = hookCurrentFrame s\<rparr>"
  let ?s1 = "s\<lparr>rendered := ?env\<rparr>"
  let ?t = "result (teardown ?s1)"
  have c: "cleanup ?s1 = Some b"
    using assms(1) by simp
  have t: "calls ?t = calls (result (teardown s))"
    using assms(1) c by (simp add: calls_teardown)
  have r: "result (render item onEvent s) = result (useEffect_body ?env ?t)"
    using assms(2) by (simp add: result_render)
  show ?thesis
  proof (cases item)
    case None
    with r t show ?thesis
      by (simp add: calls_useEffect_body_None)
  next
    case (Some r')
    have "notified Loading ?t = []"
      using c by (simp add: notified_def teardown_frame)
    moreover have "effectRuns ?t = effectRuns s"
      using teardown_frame(2) [OF c] by simp
    ultimately have "calls (result (useEffect_body ?env ?t)) =
        calls (result (teardown s)) @ [SetPlayerState Loading]
          @ registrations \<lparr>b_item = r', b_effect = effectRuns s, b_frame = hookCurrentFrame s,
              b_onPlayerEvent = onEvent\<rparr>"
      using calls_useEffect_body [of ?env r' ?t] Some t by simp
    with r Some show ?thesis by simp
  qed
qed

lemma items_useEffect_body_throw:
  "r_animationItem env = Some r \<Longrightarrow> addThrows (items s r) \<Longrightarrow>
   items (result (useEffect_body env s)) = items s"
  by (simp add: result_useEffect_body register_items_throw setPlayerState_frame)

lemma run_cleanup_throw:
  "removeThrows (items s (b_item b)) \<Longrightarrow> items (result (run_cleanup b s)) = items s"
  by (simp add: result_run_cleanup setPlayerState_frame deregister_items_throw)

lemma run_cleanup_frame:
  "playerState (result (run_cleanup b s)) = Loading"
  "calls (result (run_cleanup b s)) =
     calls s @ removals b @ [SetPlayerState Loading] @ notified Loading s"
  by (simp_all add: result_run_cleanup setPlayerState_frame deregister_calls removals_def)
    (simp add: notified_def deregister_frame)

lemma fire_data_failed:
  "cbs (items s r) = registered b \<Longrightarrow>
   result (fire r ''data_failed'' s) = setPlayerState LottiePlayerState.Error s"
  by (simp add: fire_def dispatch_def registered_def listeners_def call_callback_def
      make_callback_def)

text \<open>
  On a handle that does not throw, the body of the effect leaves the callbacks of the new
  binding on the handle, after those it held.
\<close>

lemma cbs_useEffect_body:
  "r_animationItem env = Some r \<Longrightarrow> \<not> addThrows (items s r) \<Longrightarrow>
   cbs (items (result (useEffect_body env s)) r) =
     cbs (items s r)
       @ registered \<lparr>b_item = r, b_effect = effectRuns s, b_frame = r_currentFrame env,
           b_onPlayerEvent = r_onPlayerEvent env\<rparr>"
  by (simp add: result_useEffect_body register_items setPlayerState_frame registered_def)

text \<open>
  On a handle that holds the callbacks of one binding, an event runs the handler the
  \<open>listeners\<close> array gives for its name.
\<close>

lemma dispatch_registered:
  "cbs (items s r) = registered b \<Longrightarrow>
     dispatch r ''complete'' s = run_handler CompleteHandler b s"
  "cbs (items s r) = registered b \<Longrightarrow>
     dispatch r ''enterFrame'' s = run_handler EnterFrameHandler b s"
  "cbs (items s r) = registered b \<Longrightarrow>
     dispatch r ''data_failed'' s = run_handler DataFailedHandler b s"
  "cbs (items s r) = registered b \<Longrightarrow>
     dispatch r ''DOMLoaded'' s = run_handler DOMLoadedHandler b s"
  by (simp_all add: dispatch_def registered_def listeners_def call_callback_def
      make_callback_def)

subsection \<open>Seeking\<close>



lemma handle_calls_notified [simp]: "handle_calls (notified x s) = []"
  by (simp add: notified_def)

section \<open>The claims\<close>

subsection \<open>Interaction methods without a handle\<close>

text \<open>
  C1. What the interaction methods do when the \<open>animationItem\<close> they see is \<open>null\<close>:
  \<open>play\<close>, \<open>pause\<close>, \<open>stop\<close> and \<open>setSpeed\<close> change nothing and make no call, and
  \<open>setSeeker\<close> passes no event to \<open>onPlayerEvent\<close>; but \<open>setSeeker\<close> does call
  \<open>setPlayerState\<close>, with \<open>Playing\<close> when \<open>shouldPlay\<close> is set and the \<open>playerState\<close> it
  sees is \<open>Playing\<close> and with \<open>Paused\<close> otherwise, so the player state is not left
  unchanged: from the initial state \<open>Loading\<close>, \<open>setSeeker(10)\<close> leaves the state \<open>Paused\<close>
  and notifies the host.
\<close>

theorem absent_handle_setSeeker_sets_state:
  "r_animationItem env = None \<longrightarrow>
     result (play env s) = s \<and> result (pause env s) = s \<and> result (stop env s) = s
     \<and> result (setSpeed env speed s) = s
     \<and> emitted (result (setSeeker env seek shouldPlay s)) = emitted s
     \<and> playerState (result (setSeeker env seek shouldPlay s)) =
         (if shouldPlay \<and> r_playerState env = Playing then Playing else Paused)
     \<and> calls (result (setSeeker env seek shouldPlay s)) =
         calls s
           @ [SetPlayerState (if shouldPlay \<and> r_playerState env = Playing then Playing else Paused)]
           @ notified (if shouldPlay \<and> r_playerState env = Playing then Playing else Paused) s"
  by (simp add: play_def pause_def stop_def setSpeed_def setSeeker_def Let_def
      setPlayerState_frame emitted_def emitted_of_append notified_def)

theorem absent_handle_setSeeker_sets_state_witness:
  "r_animationItem (rendered host) = None \<and> playerState host = Loading
   \<and> playerState (result (setSeeker (rendered host) 10 False host)) = Paused
   \<and> calls (result (setSeeker (rendered host) 10 False host)) =
       [SetPlayerState Paused, OnPlayerStateChange Paused]
   \<and> playerState (result (run [Call (MSetSeeker 10 False)] host)) = Paused"
proof -
  have h: "r_animationItem (rendered host) = None" "playerState host = Loading"
    "calls host = []" "notified Paused host = [OnPlayerStateChange Paused]"
    by (simp_all add: host_def initial_def notified_def)
  have r: "run [Call (MSetSeeker 10 False)] host = setSeeker (rendered host) 10 False host"
    by (cases "setSeeker (rendered host) 10 False host") simp_all
  from absent_handle_setSeeker_sets_state [of "rendered host" host 0 10 False] h r
  show ?thesis by simp
qed

subsection \<open>Frame ticks\<close>

text \<open>
  C2. The handler of \<open>enterFrame\<close> passes \<open>Frame\<close> to the \<open>onPlayerEvent\<close> it captured
  (when there was one) and calls \<open>setCurrentFrame\<close> exactly when the frame the handle
  reports differs from the \<open>currentFrame\<close> its closure captured when the effect ran,
  whatever the tracked value is by now (the effect depends on \<open>[animationItem]\<close> only,
  so a later render does not create the handler anew). A listener registered at tracked
  frame 0 therefore calls \<open>setCurrentFrame(5)\<close> again on a second tick at frame 5, when
  the tracked value is 5 already and the hook was rendered again, and leaves the tracked
  value at 5 on a tick at frame 0.
\<close>

theorem enterFrame_compares_with_captured_frame:
  "calls (run_handler EnterFrameHandler b s) =
     calls s @ (case b_onPlayerEvent b of Some f \<Rightarrow> [OnPlayerEvent f Frame] | None \<Rightarrow> [])
       @ (if currentFrame (items s (b_item b)) \<noteq> b_frame b
          then [SetCurrentFrame (currentFrame (items s (b_item b)))] else [])
   \<and> hookCurrentFrame (run_handler EnterFrameHandler b s) =
       (if currentFrame (items s (b_item b)) \<noteq> b_frame b
        then currentFrame (items s (b_item b)) else hookCurrentFrame s)"
  by (simp add: Let_def triggerEvent_frame setCurrentFrame_frame)

theorem enterFrame_compares_with_captured_frame_witness:
  "hookCurrentFrame (result (run [Render (Some 0) (Some 0), EngineSet 0 True 5 False False,
       EngineEvent 0 ''enterFrame'', Render (Some 0) (Some 0)] host)) = 5
   \<and> currentFrame (items (result (run [Render (Some 0) (Some 0), EngineSet 0 True 5 False False,
       EngineEvent 0 ''enterFrame'', Render (Some 0) (Some 0)] host)) 0) = 5
   \<and> calls (run_handler EnterFrameHandler first_binding
        (result (run [Render (Some 0) (Some 0), EngineSet 0 True 5 False False,
           EngineEvent 0 ''enterFrame'', Render (Some 0) (Some 0)] host))) =
       calls (result (run [Render (Some 0) (Some 0), EngineSet 0 True 5 False False,
           EngineEvent 0 ''enterFrame'', Render (Some 0) (Some 0)] host))
         @ [OnPlayerEvent 0 Frame, SetCurrentFrame 5]
   \<and> calls (result (fire 0 ''enterFrame''
        (result (run [Render (Some 0) (Some 0), EngineSet 0 True 5 False False,
           EngineEvent 0 ''enterFrame'', Render (Some 0) (Some 0)] host)))) =
       calls (result (run [Render (Some 0) (Some 0), EngineSet 0 True 5 False False,
           EngineEvent 0 ''enterFrame'', Render (Some 0) (Some 0)] host))
         @ [OnPlayerEvent 0 Frame, SetCurrentFrame 5]
   \<and> hookCurrentFrame (result (run [Render (Some 0) (Some 0), EngineSet 0 True 5 False False,
       EngineEvent 0 ''enterFrame'', Render (Some 0) (Some 0), EngineSet 0 True 0 False False,
       EngineEvent 0 ''enterFrame''] host)) = 5"
proof -
  let ?b = first_binding
  let ?w = "result (run [Render (Some 0) (Some 0), EngineSet 0 True 5 False False,
       EngineEvent 0 ''enterFrame'', Render (Some 0) (Some 0)] host)"
  have h: "hookCurrentFrame ?w = 5" "currentFrame (items ?w 0) = 5"
    "b_onPlayerEvent ?b = Some 0" "b_item ?b = 0" "b_frame ?b = 0"
    by (simp_all add: eval_defs)
  have c: "cbs (items ?w 0) = registered ?b"
    by (simp add: eval_defs)
  have f: "result (fire 0 ''enterFrame'' ?w) = run_handler EnterFrameHandler ?b ?w"
    using c by (simp add: fire_def dispatch_registered)
  have g: "hookCurrentFrame (result (run [Render (Some 0) (Some 0),
       EngineSet 0 True 5 False False, EngineEvent 0 ''enterFrame'', Render (Some 0) (Some 0),
       EngineSet 0 True 0 False False, EngineEvent 0 ''enterFrame''] host)) = 5"
    by (simp add: eval_defs)
  from enterFrame_compares_with_captured_frame [of ?b ?w] h
  have "calls (run_handler EnterFrameHandler ?b ?w) =
      calls ?w @ [OnPlayerEvent 0 Frame, SetCurrentFrame 5]"
    by simp
  with h f g show ?thesis by simp
qed

subsection \<open>Binding a handle\<close>

text \<open>
  C3. The body of the effect always returns. Without a handle it makes no call at all:
  nothing is registered on any handle and the player state is what it was. With a
  handle the state is \<open>Loading\<close> afterwards, and the calls it makes are, in this order,
  \<open>setPlayerState(Loading)\<close>, the change notification if the state was not \<open>Loading\<close>
  already, and only then the registrations of the listeners: no handler of this binding
  is registered, and so none can run, before the state was set to \<open>Loading\<close>.
\<close>

theorem bind_handle_sets_Loading_first:
  "returns (useEffect_body env s)
   \<and> (r_animationItem env = None \<longrightarrow>
        playerState (result (useEffect_body env s)) = playerState s
        \<and> calls (result (useEffect_body env s)) = calls s
        \<and> items (result (useEffect_body env s)) = items s
        \<and> cleanup (result (useEffect_body env s)) = None)
   \<and> (\<forall>r. r_animationItem env = Some r \<longrightarrow>
        playerState (result (useEffect_body env s)) = Loading
        \<and> calls (result (useEffect_body env s)) =
            calls s @ [SetPlayerState Loading] @ notified Loading s
              @ registrations \<lparr>b_item = r, b_effect = effectRuns s, b_frame = r_currentFrame env,
                  b_onPlayerEvent = r_onPlayerEvent env\<rparr>
        \<and> cleanup (result (useEffect_body env s)) =
            Some \<lparr>b_item = r, b_effect = effectRuns s, b_frame = r_currentFrame env,
              b_onPlayerEvent = r_onPlayerEvent env\<rparr>)"
  by (simp add: returns_useEffect_body result_useEffect_body register_frame register_calls
      setPlayerState_frame registrations_def)

theorem bind_handle_sets_Loading_first_witness:
  "r_animationItem ((rendered host)\<lparr>r_animationItem := Some 0\<rparr>) = Some 0
   \<and> playerState (result (useEffect_body ((rendered host)\<lparr>r_animationItem := Some 0\<rparr>)
        (host\<lparr>playerState := Paused\<rparr>))) = Loading
   \<and> take 2 (calls (result (useEffect_body ((rendered host)\<lparr>r_animationItem := Some 0\<rparr>)
        (host\<lparr>playerState := Paused\<rparr>))))
       = [SetPlayerState Loading, OnPlayerStateChange Loading]
   \<and> r_animationItem (rendered host) = None
   \<and> calls (result (useEffect_body (rendered host) host)) = []"
  using bind_handle_sets_Loading_first
      [of "(rendered host)\<lparr>r_animationItem := Some 0\<rparr>" "host\<lparr>playerState := Paused\<rparr>"]
    bind_handle_sets_Loading_first [of "rendered host" host]
  by (simp add: host_def initial_def notified_def)

subsection \<open>Teardown\<close>

text \<open>
  C4. The cleanup function of a binding always returns. It calls
  \<open>removeEventListener\<close> once for every listener of the binding, with the name and the
  handler function that were registered, and after these calls sets the player state to
  \<open>Loading\<close>; unless the handle throws, none of the binding's callbacks is left on the
  handle. A render with another handle (or with none) first makes all the calls of this
  cleanup and only then the calls of the new binding: \<open>setPlayerState(Loading)\<close> and the
  registrations on the new handle.
\<close>

theorem teardown_deregisters_each_listener_once:
  "cleanup s = Some b \<longrightarrow>
     returns (teardown s)
     \<and> playerState (result (teardown s)) = Loading
     \<and> calls (result (teardown s)) =
         calls s @ removals b @ [SetPlayerState Loading] @ notified Loading s
     \<and> (\<forall>e\<in>set (registered b).
          count_list (removals b) (RemoveEventListener (b_item b) (fst e) (snd e)) = 1)
     \<and> (\<not> removeThrows (items s (b_item b)) \<longrightarrow>
          (\<forall>e\<in>set (registered b). e \<notin> set (cbs (items (result (teardown s)) (b_item b)))))
     \<and> (\<forall>item onEvent. item \<noteq> r_animationItem (rendered s) \<longrightarrow>
          returns (render item onEvent s)
          \<and> calls (result (render item onEvent s)) =
              calls (result (teardown s))
                @ (case item of
                     None \<Rightarrow> []
                   | Some r \<Rightarrow> [SetPlayerState Loading]
                       @ registrations
                           \<lparr>b_item = r, b_effect = effectRuns s, b_frame = hookCurrentFrame s,
                             b_onPlayerEvent = onEvent\<rparr>))"
proof (intro impI conjI ballI allI)
  assume "cleanup s = Some b"
  then show "playerState (result (teardown s)) = Loading"
    by (rule teardown_frame)
next
  assume "cleanup s = Some b"
  then show "calls (result (teardown s)) =
      calls s @ removals b @ [SetPlayerState Loading] @ notified Loading s"
    by (rule calls_teardown)
next
  fix e assume "e \<in> set (registered b)"
  then show "count_list (removals b) (RemoveEventListener (b_item b) (fst e) (snd e)) = 1"
    by (rule count_removals)
next
  fix e
  assume "cleanup s = Some b" "\<not> removeThrows (items s (b_item b))" "e \<in> set (registered b)"
  then show "e \<notin> set (cbs (items (result (teardown s)) (b_item b)))"
    by (rule cbs_teardown)
next
  fix item onEvent
  assume "cleanup s = Some b" "item \<noteq> r_animationItem (rendered s)"
  then show "calls (result (render item onEvent s)) =
      calls (result (teardown s))
        @ (case item of
             None \<Rightarrow> []
           | Some r \<Rightarrow> [SetPlayerState Loading]
               @ registrations
                   \<lparr>b_item = r, b_effect = effectRuns s, b_frame = hookCurrentFrame s,
                     b_onPlayerEvent = onEvent\<rparr>)"
    by (rule calls_rebind)
qed (rule returns_teardown returns_render)+

theorem teardown_deregisters_each_listener_once_witness:
  "cleanup bound_host = Some first_binding
   \<and> \<not> removeThrows (items bound_host 0)
   \<and> (''enterFrame'', make_callback first_binding EnterFrameHandler)
        \<in> set (registered first_binding)
   \<and> Some 1 \<noteq> r_animationItem (rendered bound_host)
   \<and> playerState (result (teardown bound_host)) = Loading
   \<and> (''enterFrame'', make_callback first_binding EnterFrameHandler)
        \<notin> set (cbs (items (result (teardown bound_host)) 0))
   \<and> calls (result (render (Some 1) (Some 0) bound_host)) =
       calls (result (teardown bound_host))
         @ [SetPlayerState Loading]
         @ registrations \<lparr>b_item = 1, b_effect = 1, b_frame = 0, b_onPlayerEvent = Some 0\<rparr>"
proof -
  let ?w = bound_host
  let ?b = first_binding
  let ?e = "(''enterFrame'', make_callback ?b EnterFrameHandler)"
  have h: "cleanup ?w = Some ?b" "\<not> removeThrows (items ?w 0)"
    "Some 1 \<noteq> r_animationItem (rendered ?w)"
    "effectRuns ?w = 1" "hookCurrentFrame ?w = 0" "b_item ?b = 0"
    by (simp_all add: eval_defs)
  have e: "?e \<in> set (registered ?b)"
    by (simp add: registered_def listeners_def)
  from teardown_deregisters_each_listener_once [of ?w ?b] h e
  show ?thesis by simp
qed

subsection \<open>Seeking with a handle\<close>



subsection \<open>Engine events\<close>





subsection \<open>Exceptions\<close>

text \<open>
  C8. Every operation returns: each single step (a render, an unmount, an engine
  event, an interaction method) and every sequence of steps, the body of the effect and
  the cleanup function. On a handle whose \<open>addEventListener\<close> throws, the body of the
  effect still sets the state to \<open>Loading\<close> and attempts every registration, and the
  handle is left as it was; on a handle whose \<open>removeEventListener\<close> throws, the
  cleanup function still attempts every deregistration and then sets the state to
  \<open>Loading\<close>. The handler of \<open>data_failed\<close> only sets the player state to \<open>Error\<close>
  (with the change notification): it passes no event to \<open>onPlayerEvent\<close>.
\<close>

theorem no_exception_reaches_the_caller:
  "returns (step a s) \<and> returns (run acts s)
   \<and> returns (useEffect_body env s) \<and> returns (run_cleanup b s)
   \<and> (r_animationItem env = Some r \<and> addThrows (items s r) \<longrightarrow>
        items (result (useEffect_body env s)) = items s
        \<and> playerState (result (useEffect_body env s)) = Loading
        \<and> calls (result (useEffect_body env s)) =
            calls s @ [SetPlayerState Loading] @ notified Loading s
              @ registrations \<lparr>b_item = r, b_effect = effectRuns s, b_frame = r_currentFrame env,
                  b_onPlayerEvent = r_onPlayerEvent env\<rparr>)
   \<and> (removeThrows (items s (b_item b)) \<longrightarrow>
        items (result (run_cleanup b s)) = items s
        \<and> playerState (result (run_cleanup b s)) = Loading
        \<and> calls (result (run_cleanup b s)) =
            calls s @ removals b @ [SetPlayerState Loading] @ notified Loading s)
   \<and> playerState (run_handler DataFailedHandler b s) = LottiePlayerState.Error
   \<and> calls (run_handler DataFailedHandler b s) =
       calls s @ [SetPlayerState LottiePlayerState.Error] @ notified LottiePlayerState.Error s
   \<and> (cbs (items s r) = registered b \<longrightarrow>
        returns (fire r ''data_failed'' s)
        \<and> playerState (result (fire r ''data_failed'' s)) = LottiePlayerState.Error
        \<and> emitted (result (fire r ''data_failed'' s)) = emitted s)"
proof (intro conjI impI)
  show "returns (step a s)" by (rule returns_step)
  show "returns (run acts s)" by (rule returns_run)
  show "returns (useEffect_body env s)" by (rule returns_useEffect_body)
  show "returns (run_cleanup b s)" by (rule returns_run_cleanup)
  show "playerState (run_handler DataFailedHandler b s) = LottiePlayerState.Error"
    by (simp add: setPlayerState_frame)
  show "calls (run_handler DataFailedHandler b s) =
      calls s @ [SetPlayerState LottiePlayerState.Error] @ notified LottiePlayerState.Error s"
    by (simp add: setPlayerState_frame)
next
  assume h: "r_animationItem env = Some r \<and> addThrows (items s r)"
  then show "items (result (useEffect_body env s)) = items s"
    by (simp add: items_useEffect_body_throw)
  from h show "playerState (result (useEffect_body env s)) = Loading"
    by (simp add: result_useEffect_body register_frame setPlayerState_frame)
  from h show "calls (result (useEffect_body env s)) =
      calls s @ [SetPlayerState Loading] @ notified Loading s
        @ registrations \<lparr>b_item = r, b_effect = effectRuns s, b_frame = r_currentFrame env,
                  b_onPlayerEvent = r_onPlayerEvent env\<rparr>"
    by (simp add: calls_useEffect_body)
next
  assume "removeThrows (items s (b_item b))"
  then show "items (result (run_cleanup b s)) = items s"
    by (rule run_cleanup_throw)
  show "playerState (result (run_cleanup b s)) = Loading"
    by (rule run_cleanup_frame)
  show "calls (result (run_cleanup b s)) =
      calls s @ removals b @ [SetPlayerState Loading] @ notified Loading s"
    by (rule run_cleanup_frame)
next
  assume h: "cbs (items s r) = registered b"
  show "returns (fire r ''data_failed'' s)" by (simp add: fire_def)
  from h show "playerState (result (fire r ''data_failed'' s)) = LottiePlayerState.Error"
    by (simp add: fire_data_failed setPlayerState_frame)
  from h show "emitted (result (fire r ''data_failed'' s)) = emitted s"
    by (simp add: fire_data_failed setPlayerState_frame emitted_def emitted_of_append
        notified_def)
qed

theorem no_exception_reaches_the_caller_witness:
  "r_animationItem ((rendered host)\<lparr>r_animationItem := Some 0\<rparr>) = Some 0
   \<and> addThrows (items (initial (Some 0) True (\<lambda>r. unready_item)) 0)
   \<and> removeThrows (items (initial (Some 0) True (\<lambda>r. unready_item)) 0)
   \<and> returns (useEffect_body ((rendered host)\<lparr>r_animationItem := Some 0\<rparr>)
        (initial (Some 0) True (\<lambda>r. unready_item)))
   \<and> cbs (items (result (useEffect_body ((rendered host)\<lparr>r_animationItem := Some 0\<rparr>)
        (initial (Some 0) True (\<lambda>r. unready_item)))) 0) = []
   \<and> returns (run_cleanup first_binding (initial (Some 0) True (\<lambda>r. unready_item)))
   \<and> playerState (result (run_cleanup first_binding
        (initial (Some 0) True (\<lambda>r. unready_item)))) = Loading
   \<and> returns (run [Render (Some 0) (Some 0), Call MPlay, Unmount]
        (initial (Some 0) True (\<lambda>r. unready_item)))
   \<and> cbs (items bound_host 0) = registered first_binding
   \<and> playerState (result (fire 0 ''data_failed'' bound_host)) = LottiePlayerState.Error
   \<and> emitted (result (fire 0 ''data_failed'' bound_host)) = []"
proof -
  let ?env = "(rendered host)\<lparr>r_animationItem := Some 0\<rparr>"
  let ?s = "initial (Some 0) True (\<lambda>r. unready_item)"
  let ?w = bound_host
  let ?b = first_binding
  have h: "r_animationItem ?env = Some 0" "addThrows (items ?s 0)" "removeThrows (items ?s 0)"
    "cbs (items ?s 0) = []" "b_item ?b = 0"
    by (simp_all add: initial_def unready_item_def first_binding_def)
  have g: "cbs (items ?w 0) = registered ?b" "emitted ?w = []"
    by (simp_all add: eval_defs)
  note t1 = no_exception_reaches_the_caller [of Unmount ?s "[]" ?env ?b 0]
  note t2 = no_exception_reaches_the_caller
      [of Unmount ?s "[Render (Some 0) (Some 0), Call MPlay, Unmount]" ?env ?b 0]
  note t3 = no_exception_reaches_the_caller [of Unmount ?w "[]" ?env ?b 0]
  from t1 h have "returns (useEffect_body ?env ?s)"
    "cbs (items (result (useEffect_body ?env ?s)) 0) = []"
    "returns (run_cleanup ?b ?s)"
    "playerState (result (run_cleanup ?b ?s)) = Loading"
    by simp_all
  moreover from t2 have "returns (run [Render (Some 0) (Some 0), Call MPlay, Unmount] ?s)"
    by (rule conjunct1 [OF conjunct2])
  moreover from t3 g have "playerState (result (fire 0 ''data_failed'' ?w)) = LottiePlayerState.Error"
    "emitted (result (fire 0 ''data_failed'' ?w)) = []"
    by simp_all
  ultimately show ?thesis using h g by simp
qed

subsection \<open>What never happens\<close>

text \<open>
  C9. From the first render on, after every sequence of renders, engine events and
  calls of the interaction methods (those of the latest render or any the host kept),
  the player state is not \<open>Frozen\<close>, and \<open>setPlayerState\<close> was never called with
  \<open>Frozen\<close>.
\<close>

theorem playerState_never_Frozen:
  "playerState (result (run acts (initial onEvent onStateChange heap))) \<noteq> Frozen
   \<and> SetPlayerState Frozen \<notin> set (calls (result (run acts (initial onEvent onStateChange heap))))"
  using good_run [OF good_initial, of acts onEvent onStateChange heap] by (simp add: good_def)

theorem playerState_never_Frozen_witness:
  "playerState (result (run [Render (Some 0) (Some 0), EngineEvent 0 ''DOMLoaded'',
       Call (MSetSeeker 10 True), EngineEvent 0 ''complete'', Render (Some 1) None,
       CallKept (rendered played_host) MStop, Unmount] host)) \<noteq> Frozen"
  using playerState_never_Frozen
      [of "[Render (Some 0) (Some 0), EngineEvent 0 ''DOMLoaded'', Call (MSetSeeker 10 True),
         EngineEvent 0 ''complete'', Render (Some 1) None,
         CallKept (rendered played_host) MStop, Unmount]"
         "Some 0" True "\<lambda>r. fresh_item"]
  by (simp add: host_def)

text \<open>
  C10. From the first render on, after every sequence of renders, engine events and
  calls of the interaction methods (those of the latest render or any the host kept),
  neither \<open>Error\<close> nor \<open>Freeze\<close> is among the events that were passed to
  \<open>onPlayerEvent\<close>.
\<close>

theorem Error_and_Freeze_never_emitted:
  "LottiePlayerEvent.Error \<notin> set (emitted (result (run acts (initial onEvent onStateChange heap))))
   \<and> Freeze \<notin> set (emitted (result (run acts (initial onEvent onStateChange heap))))"
  using good_run [OF good_initial, of acts onEvent onStateChange heap]
  by (simp add: good_def emitted_def)

theorem Error_and_Freeze_never_emitted_witness:
  "LottiePlayerEvent.Error \<notin> set (emitted (result (run [Render (Some 0) (Some 0),
       EngineEvent 0 ''data_failed'', Call MPlay, Call MStop, Unmount] host)))
   \<and> Freeze \<notin> set (emitted (result (run [Render (Some 0) (Some 0),
       EngineEvent 0 ''data_failed'', Call MPlay, Call MStop, Unmount] host)))"
  using Error_and_Freeze_never_emitted
      [of "[Render (Some 0) (Some 0), EngineEvent 0 ''data_failed'', Call MPlay, Call MStop,
         Unmount]" "Some 0" True "\<lambda>r. fresh_item"]
  by (simp add: host_def)

end
